theory Spec2Isabelle
  imports Complex_Main "HOL-Library.Sublist" "HOL-Library.Product_Lexorder"
begin

section \<open>Text: Python strings, character classes and regular expressions\<close>

text \<open>
  A Python \<open>str\<close> is a sequence of code points and \<open>len\<close> counts code points. The
  model reads a \<^typ>\<open>char\<close> as the code point \<open>of_char c\<close> (0 to 255), so a
  \<^typ>\<open>string\<close> is a Python string all of whose code points are below 256. The
  character classes below are those of CPython on that range: \<open>str.isspace\<close> (also
  \<open>\s\<close> and what \<open>str.strip\<close> removes), \<open>\d\<close>, \<open>\w\<close>, \<open>str.isupper\<close> and
  \<open>str.islower\<close> of a single character. No character below 256 is title-case.
\<close>

definition code :: "char \<Rightarrow> nat" where
  "code c = of_char c"

definition isspace :: "char \<Rightarrow> bool" where
  "isspace c = ((9 \<le> code c \<and> code c \<le> 13) \<or> (28 \<le> code c \<and> code c \<le> 32)
                \<or> code c = 133 \<or> code c = 160)"

definition isdigit :: "char \<Rightarrow> bool" where
  "isdigit c = (48 \<le> code c \<and> code c \<le> 57)"

definition isupper_char :: "char \<Rightarrow> bool" where
  "isupper_char c = ((65 \<le> code c \<and> code c \<le> 90) \<or> (192 \<le> code c \<and> code c \<le> 214)
                     \<or> (216 \<le> code c \<and> code c \<le> 222))"

definition islower_char :: "char \<Rightarrow> bool" where
  "islower_char c = ((97 \<le> code c \<and> code c \<le> 122) \<or> code c = 170 \<or> code c = 181
                     \<or> code c = 186 \<or> (223 \<le> code c \<and> code c \<le> 246)
                     \<or> (248 \<le> code c \<and> code c \<le> 255))"

definition isword :: "char \<Rightarrow> bool" where
  "isword c = (isdigit c \<or> isupper_char c \<or> islower_char c \<or> code c = 95
               \<or> code c = 178 \<or> code c = 179 \<or> code c = 185
               \<or> (188 \<le> code c \<and> code c \<le> 190))"

text \<open>\<open>str.strip()\<close>: drop the white space at both ends.\<close>

definition strip :: "string \<Rightarrow> string" where
  "strip s = rev (dropWhile isspace (rev (dropWhile isspace s)))"

text \<open>
  \<open>str.isupper()\<close>: no lower-case character and at least one cased character.
  \<open>str.istitle()\<close>: an upper-case character only after an uncased one, a lower-case
  character only after a cased one, and at least one cased character. Both are the loops
  of CPython, with the flags they carry.
\<close>

fun isupper_from :: "bool \<Rightarrow> string \<Rightarrow> bool" where
  "isupper_from cased [] = cased"
| "isupper_from cased (c # cs) =
     (if islower_char c then False else isupper_from (cased \<or> isupper_char c) cs)"

definition isupper :: "string \<Rightarrow> bool" where
  "isupper s = isupper_from False s"

fun istitle_from :: "bool \<Rightarrow> bool \<Rightarrow> string \<Rightarrow> bool" where
  "istitle_from cased prev [] = cased"
| "istitle_from cased prev (c # cs) =
     (if isupper_char c then (if prev then False else istitle_from True True cs)
      else if islower_char c then (if prev then istitle_from True True cs else False)
      else istitle_from cased False cs)"

definition istitle :: "string \<Rightarrow> bool" where
  "istitle s = istitle_from False False s"

definition endswith :: "string \<Rightarrow> string \<Rightarrow> bool" where
  "endswith s e = suffix e s"

subsection \<open>Regular expressions\<close>

text \<open>
  The patterns of the source are sequences of literals, character classes, \<open>+\<close> on a
  class and \<open>?\<close>. \<open>rmatch r s\<close> lists what is left of \<open>s\<close> after each way of
  matching \<open>r\<close> at its start, as a backtracking matcher finds them. \<open>re.match\<close>
  succeeds when there is one. A pattern that ends in \<open>$\<close> succeeds when a match ends at
  the end of the text or just before a newline that is the last character.
\<close>

datatype rx =
    Empty
  | Cls "char \<Rightarrow> bool"
  | Plus "char \<Rightarrow> bool"
  | Opt rx
  | Seq rx rx

fun plus_rests :: "(char \<Rightarrow> bool) \<Rightarrow> string \<Rightarrow> string list" where
  "plus_rests p [] = []"
| "plus_rests p (c # cs) = (if p c then cs # plus_rests p cs else [])"

fun rmatch :: "rx \<Rightarrow> string \<Rightarrow> string list" where
  "rmatch Empty s = [s]"
| "rmatch (Cls p) s = (case s of [] \<Rightarrow> [] | c # cs \<Rightarrow> if p c then [cs] else [])"
| "rmatch (Plus p) s = plus_rests p s"
| "rmatch (Opt a) s = rmatch a s @ [s]"
| "rmatch (Seq a b) s = concat (map (rmatch b) (rmatch a s))"

text \<open>A compiled pattern: the expression, and whether the pattern ends in \<open>$\<close>.\<close>

type_synonym pattern = "rx \<times> bool"

definition re_match :: "pattern \<Rightarrow> string \<Rightarrow> bool" where
  "re_match pat s =
     (if snd pat then list_ex (\<lambda>rest. rest = [] \<or> rest = [CHR 0x0A]) (rmatch (fst pat) s)
      else rmatch (fst pat) s \<noteq> [])"

text \<open>
  The words a pattern matches, as the documentation of \<open>re\<close> describes them; the
  matcher is compared with it below.
\<close>

fun lang :: "rx \<Rightarrow> string set" where
  "lang Empty = {[]}"
| "lang (Cls p) = {[c] | c. p c}"
| "lang (Plus p) = {w. w \<noteq> [] \<and> (\<forall>c \<in> set w. p c)}"
| "lang (Opt a) = insert [] (lang a)"
| "lang (Seq a b) = {u @ v | u v. u \<in> lang a \<and> v \<in> lang b}"

text \<open>A literal character, and a literal under \<open>re.IGNORECASE\<close>.\<close>

definition Chr :: "char \<Rightarrow> rx" where
  "Chr x = Cls (\<lambda>c. c = x)"

definition lower :: "char \<Rightarrow> char" where
  "lower c = (if isupper_char c then char_of (code c + 32) else c)"

definition IChr :: "char \<Rightarrow> rx" where
  "IChr x = Cls (\<lambda>c. lower c = lower x)"

fun Lit :: "string \<Rightarrow> rx" where
  "Lit [] = Empty"
| "Lit (x # xs) = Seq (Chr x) (Lit xs)"

fun ILit :: "string \<Rightarrow> rx" where
  "ILit [] = Empty"
| "ILit (x # xs) = Seq (IChr x) (ILit xs)"

text \<open>The class \<open>[\d\s\.\-\(\)]\<close>.\<close>

definition numeric_class :: "char \<Rightarrow> bool" where
  "numeric_class c = (isdigit c \<or> isspace c \<or> c \<in> set ''.-()'')"

subsection \<open>Paths\<close>

text \<open>
  \<open>os.path.basename\<close> and the root of \<open>os.path.splitext\<close> on a POSIX system.
  \<open>rfind\<close> is \<open>str.rfind\<close> of one character: the last index, or -1. The root stops
  at the last dot when that dot comes after the last slash and some character between
  the two is not a dot.
\<close>

definition rfind :: "string \<Rightarrow> char \<Rightarrow> int" where
  "rfind p c =
     (case List.find (\<lambda>i. p ! i = c) (rev [0..<length p]) of
        None \<Rightarrow> -1
      | Some i \<Rightarrow> int i)"

definition basename :: "string \<Rightarrow> string" where
  "basename p = drop (nat (rfind p CHR ''/'' + 1)) p"

definition splitext_root :: "string \<Rightarrow> string" where
  "splitext_root p =
     (let sepIndex = rfind p CHR ''/'';
          dotIndex = rfind p CHR ''.''
      in if dotIndex > sepIndex
            \<and> list_ex (\<lambda>c. c \<noteq> CHR ''.'')
                 (take (nat (dotIndex - (sepIndex + 1))) (drop (nat (sepIndex + 1)) p))
         then take (nat dotIndex) p
         else p)"

section \<open>The document as the PDF library returns it\<close>

text \<open>
  \<open>page.get_text("dict")\<close> gives the blocks of a page; a block of type 0 is a text block
  and has lines; a line has spans; a span has its text, size, font, flags and bounding
  box. A font size is a Python float; the model takes it as a real number, on which
  \<open>==\<close> and the order of \<open>sorted\<close> are equality and the order of the reals (no NaN).
  Opening the file or reading a page can raise: the outcome of reading the whole
  document is an error message or the list of pages.
\<close>

record span =
  span_text :: string
  span_size :: real
  span_font :: string
  span_flags :: int
  span_bbox :: "real \<times> real \<times> real \<times> real"

record line =
  spans :: "span list"

record block =
  block_type :: int
  lines :: "line list"

type_synonym pdf_page = "block list"

type_synonym pdf_source = "string + pdf_page list"

record heading =
  level :: string
  heading_text :: string
  heading_page :: int

record outline_result =
  title :: string
  outline :: "heading list"

section \<open>The class-based pipeline (app.py)\<close>

record extractor =
  min_font_size :: int
  max_font_size :: int
  min_heading_length :: int
  max_heading_length :: int

definition init :: extractor where
  "init = \<lparr>min_font_size = 8, max_font_size = 72,
           min_heading_length = 3, max_heading_length = 200\<rparr>"

text \<open>
  The seven patterns of \<open>non_heading_patterns\<close>, each matched with \<open>re.IGNORECASE\<close>,
  in the order of the source.
\<close>

definition non_heading_patterns :: "pattern list" where
  "non_heading_patterns =
     [(Seq (Plus isdigit) (Seq (Chr CHR ''.'') (Plus isdigit)), False),
      (Seq (ILit ''Page '') (Plus isdigit), False),
      (Seq (ILit ''Figure '') (Plus isdigit), False),
      (Seq (ILit ''Table '') (Plus isdigit), False),
      (Seq (ILit ''www'') (Chr CHR ''.''), False),
      (Seq (ILit ''http'') (Seq (Opt (IChr CHR ''s'')) (Lit ''://'')), False),
      (Seq (Plus isword) (Seq (Chr CHR ''@'') (Plus isword)), False)]"

definition heading_endings :: "string list" where
  "heading_endings = [''.'', '':'', ''?'', ''!'']"

definition is_potential_heading :: "extractor \<Rightarrow> string \<Rightarrow> real \<Rightarrow> int \<Rightarrow> bool" where
  "is_potential_heading self text font_size flags =
     (if int (length text) < min_heading_length self
         \<or> int (length text) > max_heading_length self then False
      else if re_match (Plus numeric_class, True) text then False
      else if list_ex (\<lambda>pattern. re_match pattern text) non_heading_patterns then False
      else if \<not> list_ex (\<lambda>ending. endswith text ending) heading_endings
              \<and> \<not> isupper text \<and> \<not> istitle text then False
      else True)"

record text_block =
  block_text :: string
  font_size :: real
  font_name :: string
  flags :: int
  page :: int
  bbox :: "real \<times> real \<times> real \<times> real"

text \<open>
  \<open>extract_text_blocks\<close>: every span of every line of every text block of every page,
  in that order, kept when its stripped text is non-empty and has at least
  \<open>min_heading_length\<close> characters. Any exception of the body is caught and gives the
  empty list.
\<close>

definition span_blocks :: "extractor \<Rightarrow> nat \<Rightarrow> span \<Rightarrow> text_block list" where
  "span_blocks self page_num sp =
     (let text = strip (span_text sp)
      in if text \<noteq> [] \<and> int (length text) \<ge> min_heading_length self
         then [\<lparr>block_text = text, font_size = span_size sp, font_name = span_font sp,
                flags = span_flags sp, page = int page_num + 1, bbox = span_bbox sp\<rparr>]
         else [])"

definition page_blocks :: "extractor \<Rightarrow> nat \<Rightarrow> pdf_page \<Rightarrow> text_block list" where
  "page_blocks self page_num blocks =
     concat (map (\<lambda>blk. if block_type blk = 0
                         then concat (map (\<lambda>ln. concat (map (span_blocks self page_num) (spans ln)))
                                          (lines blk))
                         else [])
                 blocks)"

definition extract_text_blocks :: "extractor \<Rightarrow> pdf_source \<Rightarrow> text_block list" where
  "extract_text_blocks self src =
     (case src of
        Inl e \<Rightarrow> []
      | Inr doc \<Rightarrow> concat (map (\<lambda>(page_num, pg). page_blocks self page_num pg)
                               (enumerate 0 doc)))"

text \<open>
  \<open>analyze_font_hierarchy\<close>. \<open>sorted_sizes\<close> is the ordering by frequency that the
  source computes and does not use.
\<close>

definition font_size_counts :: "real list \<Rightarrow> (real \<rightharpoonup> int)" where
  "font_size_counts font_sizes =
     foldl (\<lambda>m sz. m(sz \<mapsto> (case m sz of None \<Rightarrow> 0 | Some n \<Rightarrow> n) + 1))
           Map.empty font_sizes"

definition sorted_sizes :: "real list \<Rightarrow> real list" where
  "sorted_sizes font_sizes =
     sort_key (\<lambda>x. (- (case font_size_counts font_sizes x of None \<Rightarrow> 0 | Some n \<Rightarrow> n), - x))
              (remdups font_sizes)"

definition assign_tiers :: "real list \<Rightarrow> (string \<rightharpoonup> real)" where
  "assign_tiers unique_sizes =
     (let hierarchy = Map.empty;
          hierarchy = (if length unique_sizes \<ge> 1
                       then hierarchy(''title'' \<mapsto> unique_sizes ! 0) else hierarchy);
          hierarchy = (if length unique_sizes \<ge> 2
                       then hierarchy(''H1'' \<mapsto> unique_sizes ! 1) else hierarchy);
          hierarchy = (if length unique_sizes \<ge> 3
                       then hierarchy(''H2'' \<mapsto> unique_sizes ! 2) else hierarchy);
          hierarchy = (if length unique_sizes \<ge> 4
                       then hierarchy(''H3'' \<mapsto> unique_sizes ! 3) else hierarchy)
      in hierarchy)"

definition analyze_font_hierarchy :: "extractor \<Rightarrow> text_block list \<Rightarrow> (string \<rightharpoonup> real)" where
  "analyze_font_hierarchy self text_blocks =
     (let font_sizes = map font_size text_blocks;
          by_frequency = sorted_sizes font_sizes;
          unique_sizes = rev (sort (remdups font_sizes))
      in assign_tiers unique_sizes)"

definition extract_title :: "extractor \<Rightarrow> text_block list \<Rightarrow> (string \<rightharpoonup> real) \<Rightarrow> string" where
  "extract_title self text_blocks font_hierarchy =
     (if text_blocks = [] then []
      else case font_hierarchy ''title'' of
        None \<Rightarrow> []
      | Some title_size \<Rightarrow>
          (case List.find (\<lambda>b. font_size b = title_size \<and> page b = 1
                                \<and> is_potential_heading self (block_text b) (font_size b) (flags b))
                          text_blocks of
             Some b \<Rightarrow> block_text b
           | None \<Rightarrow> []))"

text \<open>
  \<open>extract_headings\<close>: \<open>tier_of\<close> is the \<open>if/elif\<close> chain that sets \<open>level\<close>,
  \<open>classify\<close> is one turn of the loop (the heading appended, if any).
\<close>

definition tier_of :: "(string \<rightharpoonup> real) \<Rightarrow> real \<Rightarrow> string option" where
  "tier_of font_hierarchy fs =
     (if Some fs = font_hierarchy ''H1'' then Some ''H1''
      else if Some fs = font_hierarchy ''H2'' then Some ''H2''
      else if Some fs = font_hierarchy ''H3'' then Some ''H3''
      else None)"

definition classify :: "extractor \<Rightarrow> (string \<rightharpoonup> real) \<Rightarrow> text_block \<Rightarrow> heading option" where
  "classify self font_hierarchy b =
     (if \<not> is_potential_heading self (block_text b) (font_size b) (flags b) then None
      else case tier_of font_hierarchy (font_size b) of
        None \<Rightarrow> None
      | Some lv \<Rightarrow> Some \<lparr>level = lv, heading_text = block_text b, heading_page = page b\<rparr>)"

fun extract_headings :: "extractor \<Rightarrow> text_block list \<Rightarrow> (string \<rightharpoonup> real) \<Rightarrow> heading list" where
  "extract_headings self [] font_hierarchy = []"
| "extract_headings self (b # text_blocks) font_hierarchy =
     (case classify self font_hierarchy b of
        None \<Rightarrow> extract_headings self text_blocks font_hierarchy
      | Some h \<Rightarrow> h # extract_headings self text_blocks font_hierarchy)"

text \<open>The loop that removes duplicates, with its set \<open>seen\<close> of keys.\<close>

definition heading_key :: "heading \<Rightarrow> string \<times> string \<times> int" where
  "heading_key h = (level h, heading_text h, heading_page h)"

fun unique_from :: "(string \<times> string \<times> int) set \<Rightarrow> heading list \<Rightarrow> heading list" where
  "unique_from seen [] = []"
| "unique_from seen (h # headings) =
     (if heading_key h \<notin> seen then h # unique_from (insert (heading_key h) seen) headings
      else unique_from seen headings)"

definition unique_headings :: "heading list \<Rightarrow> heading list" where
  "unique_headings headings = unique_from {} headings"

definition empty_result :: outline_result where
  "empty_result = \<lparr>title = [], outline = []\<rparr>"

text \<open>
  \<open>extract_outline\<close>. Nothing after \<open>extract_text_blocks\<close> raises, so the handler of
  the outer \<open>try\<close> is never reached; it would return the empty result too.
\<close>

definition extract_outline :: "extractor \<Rightarrow> string \<Rightarrow> pdf_source \<Rightarrow> outline_result" where
  "extract_outline self pdf_path src =
     (let text_blocks = extract_text_blocks self src
      in if text_blocks = [] then empty_result
         else
           let font_hierarchy = analyze_font_hierarchy self text_blocks;
               t = extract_title self text_blocks font_hierarchy;
               headings = extract_headings self text_blocks font_hierarchy
           in \<lparr>title = (if t \<noteq> [] then t else splitext_root (basename pdf_path)),
               outline = unique_headings headings\<rparr>)"

section \<open>The function-based pipeline (simple_extractor.py)\<close>

text \<open>
  \<open>is_valid_heading\<close>: the length bounds and the eight patterns, the last of which ends
  in \<open>$\<close>; all are matched with \<open>re.IGNORECASE\<close>.
\<close>

definition valid_non_heading_patterns :: "pattern list" where
  "valid_non_heading_patterns =
     [(Seq (Plus isdigit) (Seq (Chr CHR ''.'') (Plus isdigit)), False),
      (Seq (ILit ''Page '') (Plus isdigit), False),
      (Seq (ILit ''Figure '') (Plus isdigit), False),
      (Seq (ILit ''Table '') (Plus isdigit), False),
      (Seq (ILit ''www'') (Chr CHR ''.''), False),
      (Seq (ILit ''http'') (Seq (Opt (IChr CHR ''s'')) (Lit ''://'')), False),
      (Seq (Plus isword) (Seq (Chr CHR ''@'') (Plus isword)), False),
      (Plus numeric_class, True)]"

definition is_valid_heading :: "string \<Rightarrow> bool" where
  "is_valid_heading text =
     (if length text < 3 \<or> length text > 200 then False
      else if list_ex (\<lambda>pattern. re_match pattern text) valid_non_heading_patterns then False
      else True)"

record simple_block =
  sb_text :: string
  sb_font_size :: real
  sb_page :: int
  sb_flags :: int

definition simple_span_blocks :: "nat \<Rightarrow> span \<Rightarrow> simple_block list" where
  "simple_span_blocks page_num sp =
     (let text = strip (span_text sp)
      in if text \<noteq> [] \<and> length text \<ge> 3
         then [\<lparr>sb_text = text, sb_font_size = span_size sp,
                sb_page = int page_num + 1, sb_flags = span_flags sp\<rparr>]
         else [])"

definition simple_page_blocks :: "nat \<Rightarrow> pdf_page \<Rightarrow> simple_block list" where
  "simple_page_blocks page_num blocks =
     concat (map (\<lambda>blk. if block_type blk = 0
                         then concat (map (\<lambda>ln. concat (map (simple_span_blocks page_num) (spans ln)))
                                          (lines blk))
                         else [])
                 blocks)"

definition simple_tier_of :: "(string \<rightharpoonup> real) \<Rightarrow> real \<Rightarrow> string option" where
  "simple_tier_of font_hierarchy fs =
     (if Some fs = font_hierarchy ''H1'' then Some ''H1''
      else if Some fs = font_hierarchy ''H2'' then Some ''H2''
      else if Some fs = font_hierarchy ''H3'' then Some ''H3''
      else None)"

fun simple_headings :: "simple_block list \<Rightarrow> (string \<rightharpoonup> real) \<Rightarrow> heading list" where
  "simple_headings [] font_hierarchy = []"
| "simple_headings (b # text_blocks) font_hierarchy =
     (if \<not> is_valid_heading (sb_text b) then simple_headings text_blocks font_hierarchy
      else case simple_tier_of font_hierarchy (sb_font_size b) of
        None \<Rightarrow> simple_headings text_blocks font_hierarchy
      | Some lv \<Rightarrow> \<lparr>level = lv, heading_text = sb_text b, heading_page = sb_page b\<rparr>
                   # simple_headings text_blocks font_hierarchy)"

text \<open>
  \<open>extract_pdf_outline\<close>. The whole body is inside one \<open>try\<close>; \<open>if title_size:\<close> is
  false for a missing tier and for the size 0.
\<close>

definition extract_pdf_outline :: "string \<Rightarrow> pdf_source \<Rightarrow> outline_result" where
  "extract_pdf_outline pdf_path src =
     (case src of
        Inl e \<Rightarrow> empty_result
      | Inr doc \<Rightarrow>
          let text_blocks = concat (map (\<lambda>(page_num, pg). simple_page_blocks page_num pg)
                                        (enumerate 0 doc));
              font_sizes = map sb_font_size text_blocks
          in if text_blocks = [] then empty_result
             else
               let unique_sizes = rev (sort (remdups font_sizes));
                   font_hierarchy = assign_tiers unique_sizes;
                   t = (case font_hierarchy ''title'' of
                          None \<Rightarrow> []
                        | Some title_size \<Rightarrow>
                            if title_size \<noteq> 0
                            then (case List.find (\<lambda>b. sb_font_size b = title_size \<and> sb_page b = 1
                                                       \<and> is_valid_heading (sb_text b))
                                                 text_blocks of
                                    Some b \<Rightarrow> sb_text b
                                  | None \<Rightarrow> [])
                            else []);
                   t = (if t = [] then splitext_root (basename pdf_path) else t);
                   headings = simple_headings text_blocks font_hierarchy
               in \<lparr>title = t, outline = unique_headings headings\<rparr>)"

section \<open>A sample document\<close>

definition mk_span :: "string \<Rightarrow> real \<Rightarrow> span" where
  "mk_span text sz =
     \<lparr>span_text = text, span_size = sz, span_font = ''Helvetica'', span_flags = 0,
      span_bbox = (0, 0, 0, 0)\<rparr>"

definition mk_page :: "span list \<Rightarrow> pdf_page" where
  "mk_page sps = [\<lparr>block_type = 0, lines = [\<lparr>spans = sps\<rparr>]\<rparr>]"

definition sample_doc :: "pdf_page list" where
  "sample_doc =
     [mk_page [mk_span ''Doc Title'' 24, mk_span ''Introduction'' 18],
      mk_page [mk_span ''Background.'' 14],
      mk_page [mk_span ''Page 3'' 10]]"

definition short_doc :: "pdf_page list" where
  "short_doc = [mk_page [mk_span ''ab'' 12, mk_span ''   '' 12]]"

definition mk_block :: "string \<Rightarrow> real \<Rightarrow> int \<Rightarrow> text_block" where
  "mk_block text sz pg =
     \<lparr>block_text = text, font_size = sz, font_name = ''Helvetica'', flags = 0, page = pg,
      bbox = (0, 0, 0, 0)\<rparr>"

definition sample_blocks :: "text_block list" where
  "sample_blocks =
     [mk_block ''Doc Title'' 24 1, mk_block ''Introduction'' 18 1,
      mk_block ''Background.'' 14 2, mk_block ''Page 3'' 10 3]"

definition body_heavy_blocks :: "text_block list" where
  "body_heavy_blocks =
     [mk_block ''Report'' 24 1, mk_block ''plain text'' 10 1, mk_block ''Overview'' 18 1,
      mk_block ''more plain text'' 10 1, mk_block ''Details'' 14 2,
      mk_block ''yet more plain text'' 10 2]"

definition one_size_blocks :: "text_block list" where
  "one_size_blocks = [mk_block ''Alpha'' 12 1, mk_block ''Beta'' 12 2]"

definition lowercase_doc :: "pdf_page list" where
  "lowercase_doc = [mk_page [mk_span ''hello world'' 12]]"

definition gap_doc :: "pdf_page list" where
  "gap_doc = [mk_page [mk_span ''Doc Title'' 24, mk_span ''Hello world'' 18]]"

text \<open>The sample document with a line of prose at a fifth, smaller size.\<close>

definition prose_doc :: "pdf_page list" where
  "prose_doc = sample_doc @ [mk_page [mk_span ''Hello world'' 8]]"

definition mk_heading :: "string \<Rightarrow> string \<Rightarrow> int \<Rightarrow> heading" where
  "mk_heading lv text pg = \<lparr>level = lv, heading_text = text, heading_page = pg\<rparr>"

text \<open>
  Headings that repeat, and headings that differ from an earlier one in the page, the
  level or the text only.
\<close>

definition repeated_headings :: "heading list" where
  "repeated_headings =
     [mk_heading ''H1'' ''Intro'' 1, mk_heading ''H1'' ''Intro'' 1,
      mk_heading ''H1'' ''Intro'' 2, mk_heading ''H2'' ''Intro'' 1,
      mk_heading ''H1'' ''Scope'' 1, mk_heading ''H2'' ''Intro'' 1]"

text \<open>The fields of a fragment that the function-based pipeline stores.\<close>

definition to_simple :: "text_block \<Rightarrow> simple_block" where
  "to_simple b =
     \<lparr>sb_text = block_text b, sb_font_size = font_size b, sb_page = page b,
      sb_flags = flags b\<rparr>"

section \<open>Evaluation and congruence lemmas\<close>

lemmas char_class_defs = code_def isspace_def isdigit_def isupper_char_def islower_char_def
  isword_def numeric_class_def lower_def Chr_def IChr_def

lemmas gate_defs = is_potential_heading_def non_heading_patterns_def heading_endings_def
  endswith_def suffix_to_prefix isupper_def istitle_def re_match_def char_class_defs

lemmas valid_defs = is_valid_heading_def valid_non_heading_patterns_def re_match_def
  char_class_defs

lemmas extraction_defs = extract_text_blocks_def page_blocks_def span_blocks_def strip_def
  mk_page_def mk_span_def isspace_def code_def enumerate_eq_zip

text \<open>The gate reads the two length bounds of the extractor and nothing else of it.\<close>

lemma gate_reads_lengths_only:
  assumes "min_heading_length s = min_heading_length s'"
    and "max_heading_length s = max_heading_length s'"
  shows "is_potential_heading s = is_potential_heading s'"
  by (intro ext) (simp add: is_potential_heading_def assms)

lemma extract_headings_cong:
  assumes "min_heading_length s = min_heading_length s'"
    and "max_heading_length s = max_heading_length s'"
  shows "extract_headings s bs h = extract_headings s' bs h"
  by (induction bs)
     (simp_all add: classify_def gate_reads_lengths_only [OF assms] split: option.splits)

lemma extract_title_cong:
  assumes "min_heading_length s = min_heading_length s'"
    and "max_heading_length s = max_heading_length s'"
  shows "extract_title s = extract_title s'"
  by (intro ext) (simp only: extract_title_def gate_reads_lengths_only [OF assms])

lemma span_blocks_cong:
  "min_heading_length s = min_heading_length s' \<Longrightarrow> span_blocks s = span_blocks s'"
  by (intro ext) (simp add: span_blocks_def)

lemma page_blocks_cong:
  assumes "min_heading_length s = min_heading_length s'"
  shows "page_blocks s = page_blocks s'"
  by (intro ext) (simp only: page_blocks_def span_blocks_cong [OF assms])

lemma extract_text_blocks_cong:
  assumes "min_heading_length s = min_heading_length s'"
  shows "extract_text_blocks s = extract_text_blocks s'"
  by (intro ext) (simp only: extract_text_blocks_def page_blocks_cong [OF assms])

section \<open>The matcher finds exactly the matches\<close>

text \<open>
  \<open>rmatch\<close> returns the rests of the text after the words of the pattern that start
  it. So \<open>re.match\<close> succeeds exactly when a word of the pattern is a prefix of the
  text, and the pattern \<open>^[\d\s\.\-\(\)]+$\<close> matches the non-empty texts made of
  characters of its class (a newline is in the class).
\<close>

lemma plus_rests_sound:
  "set (plus_rests p s) = {rest. \<exists>w. w \<noteq> [] \<and> (\<forall>c \<in> set w. p c) \<and> s = w @ rest}"
proof (induction s)
  case Nil
  then show ?case by simp
next
  case (Cons c cs)
  show ?case
  proof (cases "p c")
    case False
    then show ?thesis
      by (auto simp: Cons_eq_append_conv)
  next
    case True
    have "{rest. \<exists>w. w \<noteq> [] \<and> (\<forall>x \<in> set w. p x) \<and> c # cs = w @ rest}
            = insert cs {rest. \<exists>w. w \<noteq> [] \<and> (\<forall>x \<in> set w. p x) \<and> cs = w @ rest}"
      (is "?L = insert cs ?R")
    proof (intro set_eqI iffI)
      fix rest assume "rest \<in> ?L"
      then obtain w where w: "w \<noteq> []" "\<forall>x \<in> set w. p x" "c # cs = w @ rest" by blast
      then obtain w' where w': "w = c # w'" "cs = w' @ rest"
        by (cases w) auto
      show "rest \<in> insert cs ?R"
      proof (cases "w' = []")
        case True with w' show ?thesis by simp
      next
        case False
        with w w' have "rest \<in> ?R" by auto
        then show ?thesis by simp
      qed
    next
      fix rest assume "rest \<in> insert cs ?R"
      then consider "rest = cs" | "rest \<in> ?R" by blast
      then show "rest \<in> ?L"
      proof cases
        case 1
        with True have "[c] \<noteq> [] \<and> (\<forall>x \<in> set [c]. p x) \<and> c # cs = [c] @ rest" by simp
        then show ?thesis by blast
      next
        case 2
        then obtain w where w: "w \<noteq> []" "\<forall>x \<in> set w. p x" "cs = w @ rest" by blast
        with True have "c # w \<noteq> [] \<and> (\<forall>x \<in> set (c # w). p x) \<and> c # cs = (c # w) @ rest" by simp
        then show ?thesis by blast
      qed
    qed
    with True Cons.IH show ?thesis by simp
  qed
qed

lemma rmatch_sound: "set (rmatch r s) = {rest. \<exists>w \<in> lang r. s = w @ rest}"
proof (induction r arbitrary: s)
  case Empty
  then show ?case by auto
next
  case (Cls p)
  then show ?case by (cases s) auto
next
  case (Plus p)
  then show ?case by (auto simp: plus_rests_sound)
next
  case (Opt a)
  then show ?case by auto
next
  case (Seq a b)
  show ?case
  proof (intro set_eqI iffI)
    fix rest assume "rest \<in> set (rmatch (Seq a b) s)"
    then obtain m where m: "m \<in> set (rmatch a s)" "rest \<in> set (rmatch b m)" by auto
    from m(1) Seq.IH(1) obtain u where u: "u \<in> lang a" "s = u @ m" by auto
    from m(2) Seq.IH(2) obtain v where v: "v \<in> lang b" "m = v @ rest" by auto
    from u v have "u @ v \<in> lang (Seq a b)" "s = (u @ v) @ rest" by auto
    then show "rest \<in> {rest. \<exists>w \<in> lang (Seq a b). s = w @ rest}" by blast
  next
    fix rest assume "rest \<in> {rest. \<exists>w \<in> lang (Seq a b). s = w @ rest}"
    then obtain u v where uv: "u \<in> lang a" "v \<in> lang b" "s = (u @ v) @ rest" by auto
    then have "v @ rest \<in> set (rmatch a s)" using Seq.IH(1) by auto
    moreover have "rest \<in> set (rmatch b (v @ rest))" using uv Seq.IH(2) by auto
    ultimately show "rest \<in> set (rmatch (Seq a b) s)" by auto
  qed
qed

lemma re_match_prefix: "re_match (r, False) s = (\<exists>w \<in> lang r. prefix w s)"
  by (auto simp: re_match_def rmatch_sound prefix_def simp flip: set_empty2)

lemma numeric_only_iff:
  "re_match (Plus numeric_class, True) s = (s \<noteq> [] \<and> (\<forall>c \<in> set s. numeric_class c))"
proof -
  have nl: "numeric_class (CHR 0x0A)"
    by (simp add: numeric_class_def isspace_def code_def)
  have "re_match (Plus numeric_class, True) s
          = (\<exists>rest \<in> set (plus_rests numeric_class s). rest = [] \<or> rest = [CHR 0x0A])"
    by (simp add: re_match_def list_ex_iff)
  also have "\<dots> = (s \<noteq> [] \<and> (\<forall>c \<in> set s. numeric_class c))"
    using nl by (auto simp: plus_rests_sound)
  finally show ?thesis .
qed

section \<open>The structural gate on sample texts\<close>

text \<open>
  Claim C5. With the default bounds, \<open>is_potential_heading\<close> returns False for
  \<open>Page 12\<close>, \<open>www.example.com\<close> and \<open>1.2.3\<close>, and True for \<open>INTRODUCTION\<close> and
  \<open>Chapter One: Foundations.\<close>, whatever the font size and the flags are.
\<close>

theorem structural_gate_examples:
  "\<not> is_potential_heading init ''Page 12'' fs fl
   \<and> \<not> is_potential_heading init ''www.example.com'' fs fl
   \<and> \<not> is_potential_heading init ''1.2.3'' fs fl
   \<and> is_potential_heading init ''INTRODUCTION'' fs fl
   \<and> is_potential_heading init ''Chapter One: Foundations.'' fs fl"
proof (intro conjI)
  show "\<not> is_potential_heading init ''Page 12'' fs fl"
    by (simp add: gate_defs init_def)
  show "\<not> is_potential_heading init ''www.example.com'' fs fl"
    by (simp add: gate_defs init_def)
  show "\<not> is_potential_heading init ''1.2.3'' fs fl"
    by (simp add: gate_defs init_def)
  show "is_potential_heading init ''INTRODUCTION'' fs fl"
    by (simp add: gate_defs init_def)
  show "is_potential_heading init ''Chapter One: Foundations.'' fs fl"
    by (simp add: gate_defs init_def)
qed

section \<open>Failed and empty documents\<close>

text \<open>
  Claim C9. When opening or reading the document fails, and when the document yields
  no text fragment, \<open>extract_outline\<close> returns the result with the empty title and the
  empty outline; the file name is not used. The function returns a result in every
  case: no exception leaves it.
\<close>

theorem failed_or_empty_document:
  "extract_text_blocks self (Inl e) = []
   \<and> extract_outline self pdf_path (Inl e) = \<lparr>title = [], outline = []\<rparr>
   \<and> (extract_text_blocks self src = []
        \<longrightarrow> extract_outline self pdf_path src = \<lparr>title = [], outline = []\<rparr>)"
  by (simp add: extract_outline_def extract_text_blocks_def empty_result_def)

theorem failed_or_empty_document_witness:
  "extract_text_blocks init (Inr short_doc) = []
   \<and> extract_outline init ''/app/input/short.pdf'' (Inr short_doc) = \<lparr>title = [], outline = []\<rparr>"
proof -
  have h: "extract_text_blocks init (Inr short_doc) = []"
    by (simp add: extraction_defs short_doc_def init_def)
  from failed_or_empty_document [of init "''x''" "''/app/input/short.pdf''" "Inr short_doc"] h
  show ?thesis by blast
qed

section \<open>What the extractor's fields influence\<close>

text \<open>
  Claim C10. The structural gate gives the same answer for a text under any two pairs of
  font size and flags, and \<open>extract_outline\<close> gives the same result whatever the fields
  \<open>min_font_size\<close> and \<open>max_font_size\<close> of the extractor hold.
\<close>

theorem gate_and_outline_independence:
  "is_potential_heading self text fs1 fl1 = is_potential_heading self text fs2 fl2
   \<and> extract_outline (self\<lparr>min_font_size := a, max_font_size := b\<rparr>) pdf_path src
       = extract_outline self pdf_path src"
proof
  show "is_potential_heading self text fs1 fl1 = is_potential_heading self text fs2 fl2"
    by (simp add: is_potential_heading_def)
next
  let ?s = "self\<lparr>min_font_size := a, max_font_size := b\<rparr>"
  have l: "min_heading_length ?s = min_heading_length self"
    and u: "max_heading_length ?s = max_heading_length self" by simp_all
  have b: "extract_text_blocks ?s src = extract_text_blocks self src"
    by (simp add: extract_text_blocks_cong [OF l])
  have a: "analyze_font_hierarchy ?s bs = analyze_font_hierarchy self bs" for bs
    by (simp add: analyze_font_hierarchy_def)
  have t: "extract_title ?s bs h = extract_title self bs h" for bs h
    by (simp only: extract_title_cong [OF l u])
  have h: "extract_headings ?s bs h = extract_headings self bs h" for bs h
    by (rule extract_headings_cong [OF l u])
  show "extract_outline ?s pdf_path src = extract_outline self pdf_path src"
    by (simp add: extract_outline_def Let_def b a t h)
qed

section \<open>The heading classifier\<close>

lemma extract_headings_map_filter:
  "extract_headings self bs h = List.map_filter (classify self h) bs"
  by (induction bs) (simp_all add: map_filter_simps split: option.splits)

text \<open>
  Claim C3. For every fragment and every hierarchy, the classifier emits a heading if and
  only if the fragment passes the structural gate and its font size is equal to the H1,
  H2 or H3 value of the hierarchy; the heading carries the first such tier, the text and
  the page of the fragment. A fragment whose size is none of the three values (the
  title size included) gives no heading, a fragment that fails the structural gate gives
  no heading, and \<open>extract_headings\<close> is the list of the headings emitted, in order.
  Equality of sizes is exact equality, with no tolerance.
\<close>

theorem classifier_emits_iff:
  "((classify self h b = Some hg) =
     (is_potential_heading self (block_text b) (font_size b) (flags b)
      \<and> (Some (font_size b) = h ''H1'' \<or> Some (font_size b) = h ''H2''
           \<or> Some (font_size b) = h ''H3'')
      \<and> hg = \<lparr>level = (if Some (font_size b) = h ''H1'' then ''H1''
                        else if Some (font_size b) = h ''H2'' then ''H2'' else ''H3''),
               heading_text = block_text b, heading_page = page b\<rparr>))
   \<and> (Some (font_size b) \<noteq> h ''H1'' \<and> Some (font_size b) \<noteq> h ''H2''
        \<and> Some (font_size b) \<noteq> h ''H3'' \<longrightarrow> classify self h b = None)
   \<and> (\<not> is_potential_heading self (block_text b) (font_size b) (flags b)
        \<longrightarrow> classify self h b = None)
   \<and> extract_headings self bs h = List.map_filter (classify self h) bs"
proof (intro conjI)
  show "(classify self h b = Some hg) =
     (is_potential_heading self (block_text b) (font_size b) (flags b)
      \<and> (Some (font_size b) = h ''H1'' \<or> Some (font_size b) = h ''H2''
           \<or> Some (font_size b) = h ''H3'')
      \<and> hg = \<lparr>level = (if Some (font_size b) = h ''H1'' then ''H1''
                        else if Some (font_size b) = h ''H2'' then ''H2'' else ''H3''),
               heading_text = block_text b, heading_page = page b\<rparr>)"
    by (auto simp: classify_def tier_of_def)
  show "Some (font_size b) \<noteq> h ''H1'' \<and> Some (font_size b) \<noteq> h ''H2''
        \<and> Some (font_size b) \<noteq> h ''H3'' \<longrightarrow> classify self h b = None"
    by (simp add: classify_def tier_of_def)
  show "\<not> is_potential_heading self (block_text b) (font_size b) (flags b)
        \<longrightarrow> classify self h b = None"
    by (simp add: classify_def)
  show "extract_headings self bs h = List.map_filter (classify self h) bs"
    by (rule extract_headings_map_filter)
qed

theorem classifier_emits_iff_witness:
  "classify init (assign_tiers [24, 18, 14, 10]) (mk_block ''Introduction'' 18 1)
     = Some \<lparr>level = ''H1'', heading_text = ''Introduction'', heading_page = 1\<rparr>
   \<and> classify init (assign_tiers [24, 18, 14, 10]) (mk_block ''Doc Title'' 24 1) = None
   \<and> classify init (assign_tiers [24, 18, 14, 10]) (mk_block ''Page 3'' 10 3) = None"
proof -
  let ?h = "assign_tiers [24, 18, 14, 10]"
  have h: "?h ''H1'' = Some 18" "?h ''H2'' = Some 14" "?h ''H3'' = Some 10"
    by (simp_all add: assign_tiers_def)
  have g1: "is_potential_heading init ''Introduction'' 18 0"
    by (simp add: gate_defs init_def)
  have g3: "\<not> is_potential_heading init ''Page 3'' 10 0"
    by (simp add: gate_defs init_def)
  from classifier_emits_iff [of init ?h "mk_block ''Introduction'' 18 1"
      "\<lparr>level = ''H1'', heading_text = ''Introduction'', heading_page = 1\<rparr>"] g1
  have a: "classify init ?h (mk_block ''Introduction'' 18 1)
            = Some \<lparr>level = ''H1'', heading_text = ''Introduction'', heading_page = 1\<rparr>"
    by (simp add: h mk_block_def)
  from classifier_emits_iff [of init ?h "mk_block ''Doc Title'' 24 1"]
  have b: "classify init ?h (mk_block ''Doc Title'' 24 1) = None"
    by (simp add: h mk_block_def)
  from classifier_emits_iff [of init ?h "mk_block ''Page 3'' 10 3"] g3
  have c: "classify init ?h (mk_block ''Page 3'' 10 3) = None"
    by (simp add: mk_block_def)
  from a b c show ?thesis by simp
qed

section \<open>The font hierarchy\<close>

lemma unique_sizes_single:
  assumes "bs \<noteq> []" and "\<forall>b \<in> set bs. font_size b = s"
  shows "rev (sort (remdups (map font_size bs))) = [s]"
proof -
  from assms have "set (map font_size bs) = {s}"
    by (cases bs) auto
  then have "sorted_list_of_set (set (map font_size bs)) = [s]"
    by simp
  then have "sort (remdups (map font_size bs)) = [s]"
    by (simp only: sorted_list_of_set_sort_remdups)
  then show ?thesis
    by simp
qed

lemma extract_headings_no_tiers:
  "h ''H1'' = None \<Longrightarrow> h ''H2'' = None \<Longrightarrow> h ''H3'' = None \<Longrightarrow> extract_headings self bs h = []"
  by (induction bs) (simp_all add: classify_def tier_of_def)

lemma assign_tiers_single: "assign_tiers [s] = [''title'' \<mapsto> s]"
  by (simp add: assign_tiers_def)

text \<open>
  Claim C4. When all fragments have one font size, the tiers H1, H2 and H3 of the
  hierarchy are unset and \<open>extract_headings\<close> returns the empty list; when there is
  at least one fragment, the hierarchy is the title tier alone, bound to that size.
\<close>

theorem single_size_document:
  assumes "\<forall>b \<in> set bs. font_size b = s"
  shows "analyze_font_hierarchy self bs ''H1'' = None
         \<and> analyze_font_hierarchy self bs ''H2'' = None
         \<and> analyze_font_hierarchy self bs ''H3'' = None
         \<and> extract_headings self bs (analyze_font_hierarchy self bs) = []
         \<and> (bs \<noteq> [] \<longrightarrow> analyze_font_hierarchy self bs = [''title'' \<mapsto> s])"
proof (cases "bs = []")
  case True
  then show ?thesis
    by (simp add: analyze_font_hierarchy_def assign_tiers_def)
next
  case False
  have a: "analyze_font_hierarchy self bs = [''title'' \<mapsto> s]"
    by (simp only: analyze_font_hierarchy_def Let_def unique_sizes_single [OF False assms]
                   assign_tiers_single)
  show ?thesis
    by (simp add: a extract_headings_no_tiers)
qed

theorem single_size_document_witness:
  "map font_size one_size_blocks = [12, 12]
   \<and> analyze_font_hierarchy init one_size_blocks = [''title'' \<mapsto> 12]
   \<and> extract_headings init one_size_blocks (analyze_font_hierarchy init one_size_blocks) = []"
proof -
  have h: "\<forall>b \<in> set one_size_blocks. font_size b = 12"
    and ne: "one_size_blocks \<noteq> []"
    by (simp_all add: one_size_blocks_def mk_block_def)
  have m: "map font_size one_size_blocks = [12, 12]"
    by (simp add: one_size_blocks_def mk_block_def)
  from single_size_document [OF h, of init] ne m show ?thesis
    by blast
qed

lemma desc_Cons:
  assumes "sorted (rev (u # us))" and "distinct (u # us)"
  shows "u = Max (set (u # us))" and "set us = set (u # us) - {u}"
    and "\<forall>y \<in> set us. y < u"
proof -
  from assms(1) have le: "\<forall>y \<in> set us. y \<le> u"
    by (auto simp: sorted_append)
  then show "u = Max (set (u # us))"
    by (intro Max_eqI [symmetric]) auto
  from assms(2) show "set us = set (u # us) - {u}"
    by auto
  from le assms(2) show "\<forall>y \<in> set us. y < u"
    by (auto simp: order_less_le)
qed

lemma four_prefix: "4 \<le> length xs \<Longrightarrow> \<exists>a b c d rest. xs = a # b # c # d # rest"
  by (auto simp: eval_nat_numeral Suc_le_length_iff)

lemma assign_tiers_four:
  "assign_tiers (a # b # c # d # rest) = [''title'' \<mapsto> a, ''H1'' \<mapsto> b, ''H2'' \<mapsto> c, ''H3'' \<mapsto> d]"
  by (simp add: assign_tiers_def)

text \<open>
  Claim C2. When the fragments have at least four distinct font sizes, the hierarchy
  binds title, H1, H2 and H3 to the largest, second, third and fourth largest distinct
  size, which are strictly descending. The hierarchy depends on the set of distinct
  sizes only: another fragment list with the same set of sizes, whatever the
  frequencies, gives the same hierarchy.
\<close>

theorem four_largest_sizes:
  assumes "4 \<le> card (font_size ` set bs)"
  shows "(let S = font_size ` set bs;
              t = Max S; h1 = Max (S - {t}); h2 = Max (S - {t, h1}); h3 = Max (S - {t, h1, h2})
          in analyze_font_hierarchy self bs
               = [''title'' \<mapsto> t, ''H1'' \<mapsto> h1, ''H2'' \<mapsto> h2, ''H3'' \<mapsto> h3]
             \<and> t > h1 \<and> h1 > h2 \<and> h2 > h3)
         \<and> (font_size ` set bs' = font_size ` set bs
              \<longrightarrow> analyze_font_hierarchy self' bs' = analyze_font_hierarchy self bs)"
proof
  let ?xs = "map font_size bs"
  let ?us = "rev (sort (remdups ?xs))"
  let ?S = "font_size ` set bs"
  have S: "set ?us = ?S" by simp
  from assms have "4 \<le> length ?us"
    by (simp add: length_remdups_card_conv)
  from four_prefix [OF this] obtain a b c d rest where us: "?us = a # b # c # d # rest"
    by blast
  have so: "sorted (rev ?us)" and di: "distinct ?us"
    by simp_all
  from so di have s1: "sorted (rev (a # b # c # d # rest))" and d1: "distinct (a # b # c # d # rest)"
    by (simp_all only: us)
  have S4: "set (a # b # c # d # rest) = ?S"
    using S by (simp only: us)
  note dc1 = desc_Cons [OF s1 d1]
  have a: "a = Max ?S" using dc1(1) by (simp only: S4)
  have r1: "set (b # c # d # rest) = ?S - {a}" using dc1(2) by (simp only: S4)
  have l1: "b < a" using dc1(3) by simp
  from s1 d1 have s2: "sorted (rev (b # c # d # rest))" and d2: "distinct (b # c # d # rest)"
    by (simp_all add: sorted_append)
  note dc2 = desc_Cons [OF s2 d2]
  have b: "b = Max (?S - {a})" using dc2(1) by (simp only: r1)
  have r2: "set (c # d # rest) = ?S - {a} - {b}" using dc2(2) by (simp only: r1)
  have l2: "c < b" using dc2(3) by simp
  from s2 d2 have s3: "sorted (rev (c # d # rest))" and d3: "distinct (c # d # rest)"
    by (simp_all add: sorted_append)
  note dc3 = desc_Cons [OF s3 d3]
  have c: "c = Max (?S - {a} - {b})" using dc3(1) by (simp only: r2)
  have r3: "set (d # rest) = ?S - {a} - {b} - {c}" using dc3(2) by (simp only: r2)
  have l3: "d < c" using dc3(3) by simp
  from s3 d3 have s4: "sorted (rev (d # rest))" and d4: "distinct (d # rest)"
    by (simp_all add: sorted_append)
  have d: "d = Max (?S - {a} - {b} - {c})"
    using desc_Cons(1) [OF s4 d4] by (simp only: r3)
  have e2: "?S - {a, b} = ?S - {a} - {b}" and e3: "?S - {a, b, c} = ?S - {a} - {b} - {c}"
    by auto
  have h: "analyze_font_hierarchy self bs = [''title'' \<mapsto> a, ''H1'' \<mapsto> b, ''H2'' \<mapsto> c, ''H3'' \<mapsto> d]"
    by (simp only: analyze_font_hierarchy_def Let_def us assign_tiers_four)
  show "let S = font_size ` set bs;
              t = Max S; h1 = Max (S - {t}); h2 = Max (S - {t, h1}); h3 = Max (S - {t, h1, h2})
          in analyze_font_hierarchy self bs
               = [''title'' \<mapsto> t, ''H1'' \<mapsto> h1, ''H2'' \<mapsto> h2, ''H3'' \<mapsto> h3]
             \<and> t > h1 \<and> h1 > h2 \<and> h2 > h3"
    unfolding Let_def a [symmetric] b [symmetric] e2 c [symmetric] e3 d [symmetric]
    using h l1 l2 l3 by simp
next
  show "font_size ` set bs' = font_size ` set bs
        \<longrightarrow> analyze_font_hierarchy self' bs' = analyze_font_hierarchy self bs"
  proof
    assume eq: "font_size ` set bs' = font_size ` set bs"
    have "sort (remdups (map font_size bs')) = sorted_list_of_set (font_size ` set bs')"
      by (simp add: sorted_list_of_set_sort_remdups [symmetric])
    also have "\<dots> = sorted_list_of_set (font_size ` set bs)"
      by (simp only: eq)
    also have "\<dots> = sort (remdups (map font_size bs))"
      by (simp add: sorted_list_of_set_sort_remdups [symmetric])
    finally show "analyze_font_hierarchy self' bs' = analyze_font_hierarchy self bs"
      by (simp add: analyze_font_hierarchy_def Let_def)
  qed
qed

theorem four_largest_sizes_witness:
  "4 \<le> card (font_size ` set body_heavy_blocks)
   \<and> font_size ` set sample_blocks = font_size ` set body_heavy_blocks
   \<and> analyze_font_hierarchy init body_heavy_blocks
       = [''title'' \<mapsto> 24, ''H1'' \<mapsto> 18, ''H2'' \<mapsto> 14, ''H3'' \<mapsto> 10]
   \<and> analyze_font_hierarchy init sample_blocks = analyze_font_hierarchy init body_heavy_blocks"
proof -
  have S: "font_size ` set body_heavy_blocks = {24, 18, 14, 10}"
    by (auto simp: body_heavy_blocks_def mk_block_def)
  have S': "font_size ` set sample_blocks = {24, 18, 14, 10}"
    by (auto simp: sample_blocks_def mk_block_def)
  have c: "4 \<le> card (font_size ` set body_heavy_blocks)"
    by (simp add: S)
  have m: "Max {24, 18, 14, 10 :: real} = 24" "{24, 18, 14, 10 :: real} - {24} = {18, 14, 10}"
    "Max {18, 14, 10 :: real} = 18" "{24, 18, 14, 10 :: real} - {24, 18} = {14, 10}"
    "Max {14, 10 :: real} = 14" "{24, 18, 14, 10 :: real} - {24, 18, 14} = {10}"
    by auto
  from four_largest_sizes [OF c, of init sample_blocks init] c
  show ?thesis
    by (simp add: S S' Let_def m)
qed

section \<open>Removing duplicate headings\<close>

lemma unique_from_index:
  "unique_from seen hs =
     map (\<lambda>i. hs ! i)
         (filter (\<lambda>i. heading_key (hs ! i) \<notin> seen \<union> heading_key ` set (take i hs))
                 [0..<length hs])"
proof (induction hs arbitrary: seen)
  case Nil
  then show ?case by simp
next
  case (Cons h hs)
  have idx: "[0..<Suc (length hs)] = 0 # map Suc [0..<length hs]"
    by (simp add: upt_conv_Cons map_Suc_upt del: upt_Suc)
  show ?case
  proof (cases "heading_key h \<in> seen")
    case True
    then have drop_h:
      "filter (\<lambda>i. heading_key (hs ! i) \<notin> seen \<and> heading_key (hs ! i) \<noteq> heading_key h
                     \<and> heading_key (hs ! i) \<notin> heading_key ` set (take i hs)) xs
       = filter (\<lambda>i. heading_key (hs ! i) \<notin> seen
                     \<and> heading_key (hs ! i) \<notin> heading_key ` set (take i hs)) xs" for xs
      by (intro filter_cong) auto
    from True show ?thesis
      by (simp add: idx Cons.IH filter_map comp_def drop_h del: upt_Suc)
  next
    case False
    then show ?thesis
      by (simp add: idx Cons.IH filter_map comp_def conj_ac del: upt_Suc)
  qed
qed

lemma unique_from_keys:
  "heading_key ` set (unique_from seen hs) = heading_key ` set hs - seen"
  by (induction hs arbitrary: seen) auto

lemma unique_from_distinct:
  "distinct (map heading_key (unique_from seen hs))"
  by (induction hs arbitrary: seen) (auto simp: unique_from_keys)

lemma unique_from_fixed:
  "distinct (map heading_key hs) \<Longrightarrow> heading_key ` set hs \<inter> seen = {}
   \<Longrightarrow> unique_from seen hs = hs"
  by (induction hs arbitrary: seen) auto

lemma unique_from_subseq: "subseq (unique_from seen hs) hs"
  by (induction hs arbitrary: seen) auto

lemma heading_key_fun:
  "heading_key = (\<lambda>h. (level h, heading_text h, heading_page h))"
  by (intro ext) (simp add: heading_key_def)

text \<open>
  Claim C8. The deduplication keeps the heading at position \<open>i\<close> exactly when no earlier
  heading has the same level, the same text and the same page, and keeps the headings in
  their original order: the result is a subsequence of the input, not sorted again.
  Applying the step to its own output returns that output.
\<close>

theorem deduplication_first_occurrence:
  "unique_headings hs =
     map (\<lambda>i. hs ! i)
         (filter (\<lambda>i. (level (hs ! i), heading_text (hs ! i), heading_page (hs ! i))
                        \<notin> (\<lambda>h. (level h, heading_text h, heading_page h)) ` set (take i hs))
                 [0..<length hs])
   \<and> subseq (unique_headings hs) hs
   \<and> unique_headings (unique_headings hs) = unique_headings hs"
proof (intro conjI)
  have "unique_headings hs =
     map (\<lambda>i. hs ! i)
         (filter (\<lambda>i. heading_key (hs ! i) \<notin> heading_key ` set (take i hs)) [0..<length hs])"
    by (simp add: unique_headings_def unique_from_index)
  then show "unique_headings hs =
     map (\<lambda>i. hs ! i)
         (filter (\<lambda>i. (level (hs ! i), heading_text (hs ! i), heading_page (hs ! i))
                        \<notin> (\<lambda>h. (level h, heading_text h, heading_page h)) ` set (take i hs))
                 [0..<length hs])"
    by (simp only: heading_key_fun)
  show "subseq (unique_headings hs) hs"
    by (simp add: unique_headings_def unique_from_subseq)
  show "unique_headings (unique_headings hs) = unique_headings hs"
    unfolding unique_headings_def
    by (rule unique_from_fixed) (simp_all add: unique_from_distinct)
qed

text \<open>
  On \<open>repeated_headings\<close> the two repetitions go, and the headings that differ from
  the first one in the page, the level or the text only all stay.
\<close>

theorem deduplication_first_occurrence_witness:
  "unique_headings repeated_headings =
     [mk_heading ''H1'' ''Intro'' 1, mk_heading ''H1'' ''Intro'' 2,
      mk_heading ''H2'' ''Intro'' 1, mk_heading ''H1'' ''Scope'' 1]"
proof -
  have n: "[0..<length repeated_headings] = [0, 1, 2, 3, 4, 5]"
    by (simp add: repeated_headings_def upt_rec)
  from deduplication_first_occurrence [of repeated_headings]
  have "unique_headings repeated_headings =
     map (\<lambda>i. repeated_headings ! i)
         (filter (\<lambda>i. (level (repeated_headings ! i), heading_text (repeated_headings ! i),
                          heading_page (repeated_headings ! i))
                        \<notin> (\<lambda>h. (level h, heading_text h, heading_page h))
                            ` set (take i repeated_headings))
                 [0, 1, 2, 3, 4, 5])"
    by (simp only: n)
  then show ?thesis
    by (simp add: repeated_headings_def mk_heading_def)
qed

section \<open>The title\<close>

lemma gate_nonempty: "is_potential_heading self text fs fl \<Longrightarrow> text \<noteq> []"
  by (auto simp: is_potential_heading_def heading_endings_def endswith_def isupper_def istitle_def
           split: if_splits)

lemma analyze_empty: "analyze_font_hierarchy self [] = Map.empty"
  by (simp add: analyze_font_hierarchy_def assign_tiers_def)

lemma analyze_title_nonempty:
  "bs \<noteq> [] \<Longrightarrow> analyze_font_hierarchy self bs ''title'' \<noteq> None"
proof -
  assume "bs \<noteq> []"
  then have "remdups (map font_size bs) \<noteq> []" by simp
  then have "1 \<le> length (rev (sort (remdups (map font_size bs))))"
    by (simp add: Suc_le_eq)
  then show ?thesis
    by (simp add: analyze_font_hierarchy_def assign_tiers_def Let_def)
qed

lemma title_of_outline:
  assumes "analyze_font_hierarchy self (extract_text_blocks self src) ''title'' = Some ts"
  shows "title (extract_outline self pdf_path src) =
           (case List.find (\<lambda>b. font_size b = ts \<and> page b = 1
                                 \<and> is_potential_heading self (block_text b) (font_size b) (flags b))
                           (extract_text_blocks self src) of
              Some b \<Rightarrow> block_text b
            | None \<Rightarrow> splitext_root (basename pdf_path))"
proof -
  let ?bs = "extract_text_blocks self src"
  let ?P = "\<lambda>b. font_size b = ts \<and> page b = 1
                \<and> is_potential_heading self (block_text b) (font_size b) (flags b)"
  from assms have ne: "?bs \<noteq> []"
    by (auto simp: analyze_empty)
  show ?thesis
  proof (cases "List.find ?P ?bs")
    case None
    with ne assms show ?thesis
      by (simp add: extract_outline_def extract_title_def Let_def)
  next
    case (Some b)
    then have "?P b"
      by (auto simp: find_Some_iff)
    then have "block_text b \<noteq> []"
      by (auto dest: gate_nonempty)
    with Some ne assms show ?thesis
      by (simp add: extract_outline_def extract_title_def Let_def)
  qed
qed

lemma sample_blocks_extracted: "extract_text_blocks init (Inr sample_doc) = sample_blocks"
  by (simp add: extraction_defs sample_doc_def sample_blocks_def mk_block_def init_def)

lemma lowercase_blocks_extracted:
  "extract_text_blocks init (Inr lowercase_doc) = [mk_block ''hello world'' 12 1]"
  by (simp add: extraction_defs lowercase_doc_def mk_block_def init_def)

lemma report_root: "splitext_root (basename ''/app/input/report.v2.pdf'') = ''report.v2''"
  by (simp add: splitext_root_def basename_def rfind_def)

lemma sample_hierarchy:
  "analyze_font_hierarchy init sample_blocks
     = [''title'' \<mapsto> 24, ''H1'' \<mapsto> 18, ''H2'' \<mapsto> 14, ''H3'' \<mapsto> 10]"
  by (simp add: analyze_font_hierarchy_def assign_tiers_def sample_blocks_def mk_block_def)

lemma sample_gates:
  "is_potential_heading init ''Doc Title'' fs fl"
  "is_potential_heading init ''Introduction'' fs fl"
  "is_potential_heading init ''Background.'' fs fl"
  "\<not> is_potential_heading init ''Page 3'' fs fl"
  by (simp_all add: gate_defs init_def)

text \<open>
  Claim C7. When the hierarchy of the extracted fragments has a title tier, and it has
  one whenever there is a fragment, the title of the result is the text of the first
  fragment, in the original order, that is on page 1, has the title size and passes the
  structural gate; when there is no such fragment, the title is the base name of the
  path with its extension removed.
\<close>

theorem title_selection:
  assumes "analyze_font_hierarchy self (extract_text_blocks self src) ''title'' = Some ts"
  shows "title (extract_outline self pdf_path src) =
           (case List.find (\<lambda>b. font_size b = ts \<and> page b = 1
                                 \<and> is_potential_heading self (block_text b) (font_size b) (flags b))
                           (extract_text_blocks self src) of
              Some b \<Rightarrow> block_text b
            | None \<Rightarrow> splitext_root (basename pdf_path))
         \<and> (extract_text_blocks self src' \<noteq> []
              \<longrightarrow> analyze_font_hierarchy self (extract_text_blocks self src') ''title'' \<noteq> None)"
proof
  let ?bs = "extract_text_blocks self src"
  let ?P = "\<lambda>b. font_size b = ts \<and> page b = 1
                \<and> is_potential_heading self (block_text b) (font_size b) (flags b)"
  from assms have ne: "?bs \<noteq> []"
    by (auto simp: analyze_empty)
  show "title (extract_outline self pdf_path src) =
          (case List.find ?P ?bs of
             Some b \<Rightarrow> block_text b
           | None \<Rightarrow> splitext_root (basename pdf_path))"
  proof (cases "List.find ?P ?bs")
    case None
    with ne assms show ?thesis
      by (simp add: extract_outline_def extract_title_def Let_def)
  next
    case (Some b)
    then have "?P b"
      by (auto simp: find_Some_iff)
    then have "block_text b \<noteq> []"
      by (auto dest: gate_nonempty)
    with Some ne assms show ?thesis
      by (simp add: extract_outline_def extract_title_def Let_def)
  qed
next
  show "extract_text_blocks self src' \<noteq> []
        \<longrightarrow> analyze_font_hierarchy self (extract_text_blocks self src') ''title'' \<noteq> None"
    by (simp add: analyze_title_nonempty)
qed

theorem title_selection_witness:
  "analyze_font_hierarchy init (extract_text_blocks init (Inr sample_doc)) ''title'' = Some 24
   \<and> title (extract_outline init ''/app/input/report.v2.pdf'' (Inr sample_doc)) = ''Doc Title''
   \<and> analyze_font_hierarchy init (extract_text_blocks init (Inr lowercase_doc)) ''title'' = Some 12
   \<and> title (extract_outline init ''/app/input/report.v2.pdf'' (Inr lowercase_doc)) = ''report.v2''"
proof -
  have h1: "analyze_font_hierarchy init (extract_text_blocks init (Inr sample_doc)) ''title'' = Some 24"
    by (simp add: sample_blocks_extracted sample_hierarchy)
  have h2: "analyze_font_hierarchy init (extract_text_blocks init (Inr lowercase_doc)) ''title'' = Some 12"
    by (simp add: lowercase_blocks_extracted analyze_font_hierarchy_def assign_tiers_def mk_block_def)
  have g: "\<not> is_potential_heading init ''hello world'' 12 0"
    by (simp add: gate_defs init_def)
  from title_selection [OF h1, of "''/app/input/report.v2.pdf''" "Inr sample_doc"]
  have t1: "title (extract_outline init ''/app/input/report.v2.pdf'' (Inr sample_doc)) = ''Doc Title''"
    by (simp add: sample_blocks_extracted sample_blocks_def mk_block_def sample_gates)
  from title_selection [OF h2, of "''/app/input/report.v2.pdf''" "Inr lowercase_doc"]
  have t2: "title (extract_outline init ''/app/input/report.v2.pdf'' (Inr lowercase_doc)) = ''report.v2''"
    by (simp add: lowercase_blocks_extracted mk_block_def g report_root)
  from h1 t1 h2 t2 show ?thesis by simp
qed

section \<open>The sample document of the specification\<close>

lemma sample_headings:
  "extract_headings init sample_blocks (analyze_font_hierarchy init sample_blocks)
     = [\<lparr>level = ''H1'', heading_text = ''Introduction'', heading_page = 1\<rparr>,
        \<lparr>level = ''H2'', heading_text = ''Background.'', heading_page = 2\<rparr>]"
  unfolding sample_hierarchy
  by (simp add: sample_blocks_def mk_block_def classify_def tier_of_def sample_gates)

lemma sample_title:
  "extract_title init sample_blocks (analyze_font_hierarchy init sample_blocks) = ''Doc Title''"
  unfolding sample_hierarchy
  by (simp add: extract_title_def sample_blocks_def mk_block_def sample_gates)

text \<open>
  Claim C6, as amended. For the document with the fragments \<open>Doc Title\<close> (size 24,
  page 1), \<open>Introduction\<close> (18, page 1), \<open>Background.\<close> (14, page 2) and \<open>Page 3\<close>
  (10, page 3), the pipeline returns the title \<open>Doc Title\<close> and the outline H1
  \<open>Introduction\<close> on page 1, H2 \<open>Background.\<close> on page 2. The fragment of size 10 is
  rejected by the page-number pattern alone: the document has four distinct sizes, the
  hierarchy binds H3 to 10, and the tier of that fragment would be H3.
\<close>

theorem sample_document_outline:
  "extract_outline init pdf_path (Inr sample_doc)
     = \<lparr>title = ''Doc Title'',
        outline = [\<lparr>level = ''H1'', heading_text = ''Introduction'', heading_page = 1\<rparr>,
                   \<lparr>level = ''H2'', heading_text = ''Background.'', heading_page = 2\<rparr>]\<rparr>
   \<and> re_match (Seq (ILit ''Page '') (Plus isdigit), False) ''Page 3''
   \<and> \<not> is_potential_heading init ''Page 3'' 10 0
   \<and> card (font_size ` set (extract_text_blocks init (Inr sample_doc))) = 4
   \<and> analyze_font_hierarchy init (extract_text_blocks init (Inr sample_doc))
       = [''title'' \<mapsto> 24, ''H1'' \<mapsto> 18, ''H2'' \<mapsto> 14, ''H3'' \<mapsto> 10]
   \<and> tier_of (analyze_font_hierarchy init (extract_text_blocks init (Inr sample_doc))) 10
       = Some ''H3''"
proof (intro conjI)
  have ne: "sample_blocks \<noteq> []"
    by (simp add: sample_blocks_def)
  show "extract_outline init pdf_path (Inr sample_doc)
     = \<lparr>title = ''Doc Title'',
        outline = [\<lparr>level = ''H1'', heading_text = ''Introduction'', heading_page = 1\<rparr>,
                   \<lparr>level = ''H2'', heading_text = ''Background.'', heading_page = 2\<rparr>]\<rparr>"
    by (simp add: extract_outline_def Let_def sample_blocks_extracted ne sample_title
                  sample_headings unique_headings_def heading_key_def)
  show "re_match (Seq (ILit ''Page '') (Plus isdigit), False) ''Page 3''"
    by (simp add: re_match_def char_class_defs)
  show "\<not> is_potential_heading init ''Page 3'' 10 0"
    by (rule sample_gates)
  show "card (font_size ` set (extract_text_blocks init (Inr sample_doc))) = 4"
    by (simp add: sample_blocks_extracted sample_blocks_def mk_block_def)
  show "analyze_font_hierarchy init (extract_text_blocks init (Inr sample_doc))
       = [''title'' \<mapsto> 24, ''H1'' \<mapsto> 18, ''H2'' \<mapsto> 14, ''H3'' \<mapsto> 10]"
    by (simp add: sample_blocks_extracted sample_hierarchy)
  show "tier_of (analyze_font_hierarchy init (extract_text_blocks init (Inr sample_doc))) 10
       = Some ''H3''"
    by (simp add: sample_blocks_extracted sample_hierarchy tier_of_def)
qed

text \<open>
  Claim C6 as stated says that the document has three distinct sizes and that H3 is
  unset. Both are false for this document.
\<close>

theorem sample_document_three_sizes_counterexample:
  "\<not> (card (font_size ` set (extract_text_blocks init (Inr sample_doc))) = 3
      \<and> analyze_font_hierarchy init (extract_text_blocks init (Inr sample_doc)) ''H3'' = None)"
  by (simp add: sample_blocks_extracted sample_hierarchy)

section \<open>The two pipelines\<close>

lemma gate_vs_valid:
  "is_potential_heading init text fs fl =
     (is_valid_heading text
      \<and> (list_ex (\<lambda>ending. endswith text ending) heading_endings \<or> isupper text \<or> istitle text))"
  by (auto simp: is_potential_heading_def is_valid_heading_def init_def
                 non_heading_patterns_def valid_non_heading_patterns_def)

lemma simple_span_blocks_map:
  "simple_span_blocks n sp = map to_simple (span_blocks init n sp)"
  by (simp add: simple_span_blocks_def span_blocks_def to_simple_def init_def Let_def)

lemma simple_page_blocks_map:
  "simple_page_blocks n pg = map to_simple (page_blocks init n pg)"
proof -
  have sp: "simple_span_blocks n = (\<lambda>sp. map to_simple (span_blocks init n sp))"
    by (intro ext) (rule simple_span_blocks_map)
  show ?thesis
    unfolding simple_page_blocks_def page_blocks_def sp
    by (induction pg) (simp_all add: map_concat comp_def)
qed

lemma simple_blocks_map:
  "concat (map (\<lambda>(page_num, pg). simple_page_blocks page_num pg) ps)
     = map to_simple (concat (map (\<lambda>(page_num, pg). page_blocks init page_num pg) ps))"
  by (induction ps) (auto simp: simple_page_blocks_map)

lemma find_map_to_simple:
  "List.find P (map to_simple bs) = map_option to_simple (List.find (\<lambda>b. P (to_simple b)) bs)"
  by (induction bs) simp_all

lemma simple_tier_of_eq: "simple_tier_of = tier_of"
  by (intro ext) (simp add: simple_tier_of_def tier_of_def)

lemma to_simple_sel:
  "sb_text (to_simple b) = block_text b" "sb_font_size (to_simple b) = font_size b"
  "sb_page (to_simple b) = page b" "sb_flags (to_simple b) = flags b"
  by (simp_all add: to_simple_def)

lemma simple_headings_map:
  assumes "\<forall>b \<in> set bs.
             Some (font_size b) = h ''H1'' \<or> Some (font_size b) = h ''H2''
               \<or> Some (font_size b) = h ''H3''
             \<longrightarrow> is_potential_heading init (block_text b) (font_size b) (flags b)
                   = is_valid_heading (block_text b)"
  shows "simple_headings (map to_simple bs) h = extract_headings init bs h"
  using assms
proof (induction bs)
  case Nil
  then show ?case by simp
next
  case (Cons b bs)
  then have ih: "simple_headings (map to_simple bs) h = extract_headings init bs h"
    by simp
  show ?case
  proof (cases "tier_of h (font_size b)")
    case None
    then show ?thesis
      by (simp add: ih classify_def simple_tier_of_eq to_simple_sel)
  next
    case (Some lv)
    then have "Some (font_size b) = h ''H1'' \<or> Some (font_size b) = h ''H2''
                 \<or> Some (font_size b) = h ''H3''"
      by (auto simp: tier_of_def split: if_splits)
    with Cons.prems have "is_potential_heading init (block_text b) (font_size b) (flags b)
                            = is_valid_heading (block_text b)"
      by auto
    with Some show ?thesis
      by (simp add: ih classify_def simple_tier_of_eq to_simple_sel)
  qed
qed

lemma find_agree:
  assumes "\<forall>b \<in> set bs. P b = Q b"
  shows "List.find P bs = List.find Q bs"
  using assms by (induction bs) simp_all

lemma sample_valid:
  "is_valid_heading ''Doc Title''" "is_valid_heading ''Introduction''"
  "is_valid_heading ''Background.''" "\<not> is_valid_heading ''Page 3''"
  by (simp_all add: valid_defs)

lemma gap_blocks_extracted:
  "extract_text_blocks init (Inr gap_doc) = [mk_block ''Doc Title'' 24 1, mk_block ''Hello world'' 18 1]"
  by (simp add: extraction_defs gap_doc_def mk_block_def init_def)

lemma gap_gates:
  "is_valid_heading ''Hello world''" "\<not> is_potential_heading init ''Hello world'' fs fl"
  by (simp_all add: valid_defs gate_defs init_def)

lemma gap_outline_class:
  "outline (extract_outline init ''/app/input/gap.pdf'' (Inr gap_doc)) = []"
proof -
  let ?bs = "[mk_block ''Doc Title'' 24 1, mk_block ''Hello world'' 18 1]"
  have h: "analyze_font_hierarchy init ?bs = [''title'' \<mapsto> 24, ''H1'' \<mapsto> 18]"
    by (simp add: analyze_font_hierarchy_def assign_tiers_def mk_block_def)
  have e: "extract_headings init ?bs [''title'' \<mapsto> 24, ''H1'' \<mapsto> 18] = []"
    by (simp add: classify_def tier_of_def mk_block_def gap_gates)
  show ?thesis
    apply (simp only: extract_outline_def Let_def gap_blocks_extracted h e)
    apply (simp add: unique_headings_def)
    done
qed

lemma gap_outline_function:
  "outline (extract_pdf_outline ''/app/input/gap.pdf'' (Inr gap_doc))
     = [\<lparr>level = ''H1'', heading_text = ''Hello world'', heading_page = 1\<rparr>]"
proof -
  let ?sb = "[\<lparr>sb_text = ''Doc Title'', sb_font_size = 24, sb_page = 1, sb_flags = 0\<rparr>,
             \<lparr>sb_text = ''Hello world'', sb_font_size = 18, sb_page = 1, sb_flags = 0\<rparr>]"
  have b: "concat (map (\<lambda>(page_num, pg). simple_page_blocks page_num pg) (enumerate 0 gap_doc)) = ?sb"
    by (simp add: simple_page_blocks_def simple_span_blocks_def strip_def gap_doc_def mk_page_def
                  mk_span_def isspace_def code_def enumerate_eq_zip)
  have h: "assign_tiers (rev (sort (remdups (map sb_font_size ?sb)))) = [''title'' \<mapsto> 24, ''H1'' \<mapsto> 18]"
    by (simp add: assign_tiers_def)
  have v: "is_valid_heading ''Doc Title''"
    by (rule sample_valid)
  have e: "simple_headings ?sb [''title'' \<mapsto> 24, ''H1'' \<mapsto> 18]
             = [\<lparr>level = ''H1'', heading_text = ''Hello world'', heading_page = 1\<rparr>]"
    by (simp add: simple_tier_of_def gap_gates v)
  show ?thesis
    apply (simp only: extract_pdf_outline_def sum.case b h e Let_def)
    apply (simp add: unique_headings_def heading_key_def)
    done
qed

lemma prose_blocks_extracted:
  "extract_text_blocks init (Inr prose_doc) = sample_blocks @ [mk_block ''Hello world'' 8 4]"
  by (simp add: extraction_defs prose_doc_def sample_doc_def sample_blocks_def mk_block_def
                init_def)

lemma prose_hierarchy:
  "analyze_font_hierarchy init (sample_blocks @ [mk_block ''Hello world'' 8 4])
     = [''title'' \<mapsto> 24, ''H1'' \<mapsto> 18, ''H2'' \<mapsto> 14, ''H3'' \<mapsto> 10]"
  by (simp add: analyze_font_hierarchy_def assign_tiers_def sample_blocks_def mk_block_def)

text \<open>
  Claim C1, as amended. \<open>is_potential_heading\<close> with the default bounds accepts a text
  exactly when \<open>is_valid_heading\<close> accepts it and the text ends in one of \<open>. : ? !\<close>
  or is upper-case or is title-case. For every document and path, when the two gates
  agree on the extracted fragments that have the H1, H2 or H3 size and on those that have
  the title size on page 1, and the title size is not 0, the class-based and the
  function-based pipeline return the same result: the same title and the same list of
  headings. The gates may differ on every other fragment.
\<close>

theorem pipelines_agree_when_gates_agree:
  "(is_potential_heading init text fs fl =
      (is_valid_heading text
       \<and> (list_ex (\<lambda>ending. endswith text ending) heading_endings \<or> isupper text \<or> istitle text)))
   \<and> ((\<forall>b \<in> set (extract_text_blocks init src).
          (Some (font_size b) = analyze_font_hierarchy init (extract_text_blocks init src) ''H1''
           \<or> Some (font_size b) = analyze_font_hierarchy init (extract_text_blocks init src) ''H2''
           \<or> Some (font_size b) = analyze_font_hierarchy init (extract_text_blocks init src) ''H3''
           \<or> (Some (font_size b) = analyze_font_hierarchy init (extract_text_blocks init src) ''title''
                \<and> page b = 1))
          \<longrightarrow> is_potential_heading init (block_text b) (font_size b) (flags b)
                = is_valid_heading (block_text b))
        \<and> analyze_font_hierarchy init (extract_text_blocks init src) ''title'' \<noteq> Some 0
        \<longrightarrow> extract_outline init pdf_path src = extract_pdf_outline pdf_path src)"
proof (intro conjI impI)
  show "is_potential_heading init text fs fl =
      (is_valid_heading text
       \<and> (list_ex (\<lambda>ending. endswith text ending) heading_endings \<or> isupper text \<or> istitle text))"
    by (rule gate_vs_valid)
next
  assume a: "(\<forall>b \<in> set (extract_text_blocks init src).
          (Some (font_size b) = analyze_font_hierarchy init (extract_text_blocks init src) ''H1''
           \<or> Some (font_size b) = analyze_font_hierarchy init (extract_text_blocks init src) ''H2''
           \<or> Some (font_size b) = analyze_font_hierarchy init (extract_text_blocks init src) ''H3''
           \<or> (Some (font_size b) = analyze_font_hierarchy init (extract_text_blocks init src) ''title''
                \<and> page b = 1))
          \<longrightarrow> is_potential_heading init (block_text b) (font_size b) (flags b)
                = is_valid_heading (block_text b))
        \<and> analyze_font_hierarchy init (extract_text_blocks init src) ''title'' \<noteq> Some 0"
  show "extract_outline init pdf_path src = extract_pdf_outline pdf_path src"
  proof (cases src)
    case (Inl e)
    then show ?thesis
      by (simp add: extract_outline_def extract_pdf_outline_def extract_text_blocks_def)
  next
    case (Inr doc)
    let ?bs = "extract_text_blocks init (Inr doc)"
    let ?h = "analyze_font_hierarchy init ?bs"
    let ?gates = "\<lambda>b. is_potential_heading init (block_text b) (font_size b) (flags b)
                        = is_valid_heading (block_text b)"
    have sb: "concat (map (\<lambda>(page_num, pg). simple_page_blocks page_num pg) (enumerate 0 doc))
                = map to_simple ?bs"
      by (simp add: extract_text_blocks_def simple_blocks_map)
    have fs: "map sb_font_size (map to_simple ?bs) = map font_size ?bs"
      by (simp add: to_simple_def comp_def)
    have hi: "assign_tiers (rev (sort (remdups (map font_size ?bs)))) = ?h"
      by (simp add: analyze_font_hierarchy_def Let_def)
    from a have tiers: "\<forall>b \<in> set ?bs.
                           Some (font_size b) = ?h ''H1'' \<or> Some (font_size b) = ?h ''H2''
                             \<or> Some (font_size b) = ?h ''H3''
                           \<longrightarrow> ?gates b"
      and first_page: "\<forall>b \<in> set ?bs. Some (font_size b) = ?h ''title'' \<and> page b = 1
                                       \<longrightarrow> ?gates b"
      and nz: "?h ''title'' \<noteq> Some 0"
      unfolding Inr by blast+
    have hd: "simple_headings (map to_simple ?bs) ?h = extract_headings init ?bs ?h"
      by (rule simple_headings_map [OF tiers])
    show ?thesis
      unfolding Inr
    proof (cases "?bs = []")
      case True
      then show "extract_outline init pdf_path (Inr doc) = extract_pdf_outline pdf_path (Inr doc)"
        by (simp add: extract_outline_def extract_pdf_outline_def sb Let_def)
    next
      case False
      then obtain ts where ts: "?h ''title'' = Some ts"
        using analyze_title_nonempty [of ?bs init] by auto
      with nz have ts0: "ts \<noteq> 0" by auto
      let ?P = "\<lambda>b. font_size b = ts \<and> page b = 1
                  \<and> is_potential_heading init (block_text b) (font_size b) (flags b)"
      let ?Q = "\<lambda>b. font_size b = ts \<and> page b = 1 \<and> is_valid_heading (block_text b)"
      have fq: "List.find ?Q ?bs = List.find ?P ?bs"
        by (rule find_agree) (use first_page ts in auto)
      have fsimple: "List.find (\<lambda>b. sb_font_size b = ts \<and> sb_page b = 1 \<and> is_valid_heading (sb_text b))
                               (map to_simple ?bs)
                       = map_option to_simple (List.find ?P ?bs)"
        by (simp add: find_map_to_simple to_simple_def fq)
      have t: "title (extract_outline init pdf_path (Inr doc)) =
                 (case List.find ?P ?bs of Some b \<Rightarrow> block_text b
                  | None \<Rightarrow> splitext_root (basename pdf_path))"
        by (rule title_of_outline [OF ts])
      have o: "outline (extract_outline init pdf_path (Inr doc))
                 = unique_headings (extract_headings init ?bs ?h)"
        using False by (simp add: extract_outline_def Let_def)
      have nonempty: "block_text b \<noteq> []" if "List.find ?P ?bs = Some b" for b
        using that by (auto simp: find_Some_iff dest: gate_nonempty)
      have t': "title (extract_pdf_outline pdf_path (Inr doc)) =
                 (case List.find ?P ?bs of Some b \<Rightarrow> block_text b
                  | None \<Rightarrow> splitext_root (basename pdf_path))"
        apply (simp only: extract_pdf_outline_def sum.case sb fs hi Let_def ts option.case)
        using False ts0 nonempty
        apply (cases "List.find ?P ?bs")
         apply (simp_all add: fsimple to_simple_def)
        done
      have o': "outline (extract_pdf_outline pdf_path (Inr doc))
                  = unique_headings (extract_headings init ?bs ?h)"
        apply (simp only: extract_pdf_outline_def sum.case sb fs hi Let_def hd)
        using False
        apply simp
        done
      from t t' o o'
      show "extract_outline init pdf_path (Inr doc) = extract_pdf_outline pdf_path (Inr doc)"
        by (simp add: outline_result.equality)
    qed
  qed
qed

text \<open>
  On \<open>prose_doc\<close> the gates differ on the fragment \<open>Hello world\<close>, which has the
  fifth size and so no tier, and the two pipelines return the same result.
\<close>

theorem pipelines_agree_when_gates_agree_witness:
  "is_valid_heading ''Hello world''
   \<and> \<not> is_potential_heading init ''Hello world'' 8 0
   \<and> analyze_font_hierarchy init (extract_text_blocks init (Inr prose_doc)) ''title'' = Some 24
   \<and> extract_outline init ''/app/input/prose.pdf'' (Inr prose_doc)
       = extract_pdf_outline ''/app/input/prose.pdf'' (Inr prose_doc)"
proof -
  let ?bs = "extract_text_blocks init (Inr prose_doc)"
  let ?h = "analyze_font_hierarchy init ?bs"
  have h: "?h = [''title'' \<mapsto> 24, ''H1'' \<mapsto> 18, ''H2'' \<mapsto> 14, ''H3'' \<mapsto> 10]"
    by (simp only: prose_blocks_extracted prose_hierarchy)
  have h1: "\<forall>b \<in> set ?bs.
              (Some (font_size b) = ?h ''H1'' \<or> Some (font_size b) = ?h ''H2''
               \<or> Some (font_size b) = ?h ''H3''
               \<or> (Some (font_size b) = ?h ''title'' \<and> page b = 1))
              \<longrightarrow> is_potential_heading init (block_text b) (font_size b) (flags b)
                    = is_valid_heading (block_text b)"
    unfolding h unfolding prose_blocks_extracted
    by (simp add: sample_blocks_def mk_block_def sample_gates sample_valid)
  have h2: "?h ''title'' = Some 24"
    by (simp add: h)
  from pipelines_agree_when_gates_agree
         [of "''Hello world''" 8 0 "Inr prose_doc" "''/app/input/prose.pdf''"] h1 h2
  have "extract_outline init ''/app/input/prose.pdf'' (Inr prose_doc)
          = extract_pdf_outline ''/app/input/prose.pdf'' (Inr prose_doc)"
    by simp
  with h2 gap_gates(1) gap_gates(2) [of 8 0] show ?thesis
    by simp
qed

text \<open>
  Claim C1 as stated fails: \<open>Hello world\<close> has no final punctuation and is neither
  upper-case nor title-case, so only \<open>is_valid_heading\<close> accepts it, and the two
  pipelines return different outlines for a document that holds it at the H1 size.
\<close>

theorem pipelines_differ_counterexample:
  "is_valid_heading ''Hello world''
   \<and> \<not> is_potential_heading init ''Hello world'' 18 0
   \<and> extract_outline init ''/app/input/gap.pdf'' (Inr gap_doc)
       \<noteq> extract_pdf_outline ''/app/input/gap.pdf'' (Inr gap_doc)"
proof -
  have "outline (extract_outline init ''/app/input/gap.pdf'' (Inr gap_doc))
          \<noteq> outline (extract_pdf_outline ''/app/input/gap.pdf'' (Inr gap_doc))"
    by (simp add: gap_outline_class gap_outline_function)
  then have "extract_outline init ''/app/input/gap.pdf'' (Inr gap_doc)
       \<noteq> extract_pdf_outline ''/app/input/gap.pdf'' (Inr gap_doc)"
    by auto
  with gap_gates show ?thesis by simp
qed

end
